theory Spec2Isabelle
  imports Main "HOL-Library.Sublist"
begin

section \<open>Token query compiler (QueryBuilder/typeQueries/tokenQuery.ts)\<close>

text \<open>
  The function \<open>tokenQuery\<close> turns a compiled token search parameter and a parsed token
  value into an ElasticSearch query fragment. It is a pure function of its arguments and
  of the table \<open>tokenDataTypesMap\<close>, which is read from a JSON file that is not part of
  the sources at hand; the table is therefore an argument of the model. So is what the
  objects of the table inherit from the JavaScript runtime, which the \<open>in\<close> tests of
  lines 44 and 45 see.
\<close>

subsection \<open>Data\<close>

text \<open>
  The exception the function throws, with its message, and the \<open>TypeError\<close> of the
  runtime, raised at lines 46 and 55 when the value read from the table is not a list.
\<close>

datatype error = InvalidSearchParameterError string | TypeError

text \<open>\<open>CompiledSearchParam\<close>: the two fields the function reads.\<close>

record CompiledSearchParam =
  resourceType :: string
  path :: string

text \<open>
  \<open>TokenSearchValue\<close>: all three fields are optional; \<open>None\<close> stands for
  \<open>undefined\<close>. The function tests \<open>system\<close> and \<open>code\<close> with \<open>!== undefined\<close>
  and \<open>explicitNoSystemProperty\<close> for truthiness.
\<close>

record TokenSearchValue =
  system :: "string option"
  code :: "string option"
  explicitNoSystemProperty :: "bool option"

text \<open>An element \<open>{ code: string }\<close> of a type list of the table.\<close>

datatype DataType = DataType (dataType_code: string)

text \<open>
  The entries of the table, as the function declares what it reads from it: indexed by
  resource type and then by path, each entry a list of \<open>{ code: string }\<close>.
\<close>

type_synonym TokenDataTypesMap = "string \<rightharpoonup> (string \<rightharpoonup> DataType list)"

text \<open>
  The table and each of its resource-type entries are plain objects, so they inherit the
  properties of \<open>Object.prototype\<close>: for such a property name \<open>k\<close> the test \<open>k in o\<close>
  holds although \<open>o\<close> has no entry \<open>k\<close>, and \<open>o[k]\<close> is the inherited value. The
  prototype gives, for each property name it has, the property names of the value found
  there (the result of \<open>p in Object.prototype[k]\<close>). None of these values is a list of
  types.
\<close>

type_synonym ObjectPrototype = "string \<rightharpoonup> (string \<Rightarrow> bool)"

text \<open>
  The query fragments the function builds:
  \<^item> \<open>{ multi_match: { fields, query, lenient } }\<close>,
  \<^item> \<open>{ bool: { must_not: { exists: { field } } } }\<close>,
  \<^item> \<open>{ bool: { must: queries } }\<close>.
\<close>

datatype Query =
    MultiMatch "string list" string bool
  | BoolMustNotExists string
  | BoolMust "Query list"

text \<open>The eight local flags \<open>has...Type\<close>.\<close>

record TypeFlags =
  hasIdentifierType :: bool
  hasCodeType :: bool
  hasCodeableConceptType :: bool
  hasIdType :: bool
  hasStringType :: bool
  hasBooleanType :: bool
  hasCodingType :: bool
  hasContactPointType :: bool

subsection \<open>Constants\<close>

definition FIELDS_WITHOUT_KEYWORD :: "string list" where
  "FIELDS_WITHOUT_KEYWORD = [''id'']"

definition SUPPORTED_MODIFIERS :: "string list" where
  "SUPPORTED_MODIFIERS = []"

subsection \<open>The function, block by block\<close>

text \<open>
  The guard of line 25, \<open>modifier && !SUPPORTED_MODIFIERS.includes(modifier)\<close>: an
  optional string is truthy when it is defined and not the empty string.
\<close>

definition unsupportedModifier :: "string option \<Rightarrow> bool" where
  "unsupportedModifier modifier =
     (case modifier of
        None \<Rightarrow> False
      | Some m \<Rightarrow> m \<noteq> [] \<and> m \<notin> set SUPPORTED_MODIFIERS)"

text \<open>The template string of line 26.\<close>

definition unsupportedModifierMessage :: "string option \<Rightarrow> string" where
  "unsupportedModifierMessage modifier =
     ''Unsupported token search modifier: '' @ (case modifier of None \<Rightarrow> ''undefined'' | Some m \<Rightarrow> m)"

text \<open>Lines 30 and 31.\<close>

definition useKeywordSuffix :: "bool \<Rightarrow> CompiledSearchParam \<Rightarrow> bool" where
  "useKeywordSuffix useKeywordSubFields compiled =
     (useKeywordSubFields \<and> path compiled \<notin> set FIELDS_WITHOUT_KEYWORD)"

definition keywordSuffix :: "bool \<Rightarrow> CompiledSearchParam \<Rightarrow> string" where
  "keywordSuffix useKeywordSubFields compiled =
     (if useKeywordSuffix useKeywordSubFields compiled then ''.keyword'' else [])"

text \<open>
  Lines 44 and 45: \<open>resourceType in tokenDataTypesMap && path in
  tokenDataTypesMap[resourceType]\<close>. An entry of the table comes before an inherited
  property of the same name.
\<close>

definition dataTypeExists :: "ObjectPrototype \<Rightarrow> TokenDataTypesMap \<Rightarrow> CompiledSearchParam \<Rightarrow> bool" where
  "dataTypeExists proto tokenDataTypesMap compiled =
     (case tokenDataTypesMap (resourceType compiled) of
        Some byPath \<Rightarrow>
          (case byPath (path compiled) of
             Some _ \<Rightarrow> True
           | None \<Rightarrow> (case proto (path compiled) of Some _ \<Rightarrow> True | None \<Rightarrow> False))
      | None \<Rightarrow>
          (case proto (resourceType compiled) of
             Some has \<Rightarrow> has (path compiled)
           | None \<Rightarrow> False))"

text \<open>
  Line 46: \<open>dataTypeExists ? tokenDataTypesMap[resourceType][path] : []\<close>. \<open>None\<close>
  stands for a value that is not a list: when \<open>dataTypeExists\<close> holds through an
  inherited property, the value read is a function, a string, a number or an object of
  the runtime (or reading it throws \<open>TypeError\<close>); it has no \<open>forEach\<close>.
\<close>

definition dataTypes :: "ObjectPrototype \<Rightarrow> TokenDataTypesMap \<Rightarrow> CompiledSearchParam \<Rightarrow> DataType list option" where
  "dataTypes proto tokenDataTypesMap compiled =
     (if dataTypeExists proto tokenDataTypesMap compiled
      then (case tokenDataTypesMap (resourceType compiled) of
              Some byPath \<Rightarrow> byPath (path compiled)
            | None \<Rightarrow> None)
      else Some [])"

text \<open>Lines 47 to 54: every flag starts false.\<close>

definition initialFlags :: TypeFlags where
  "initialFlags =
     \<lparr> hasIdentifierType = False, hasCodeType = False, hasCodeableConceptType = False,
       hasIdType = False, hasStringType = False, hasBooleanType = False,
       hasCodingType = False, hasContactPointType = False \<rparr>"

text \<open>Lines 56 to 63: the body of the \<open>forEach\<close> callback, one step of the loop.\<close>

definition updateFlags :: "TypeFlags \<Rightarrow> DataType \<Rightarrow> TypeFlags" where
  "updateFlags fl dataType =
     \<lparr> hasIdentifierType = hasIdentifierType fl \<or> dataType_code dataType = ''Identifier'',
       hasCodeType = hasCodeType fl \<or> dataType_code dataType = ''code'',
       hasCodeableConceptType = hasCodeableConceptType fl \<or> dataType_code dataType = ''CodeableConcept'',
       hasIdType = hasIdType fl \<or> dataType_code dataType = ''id'',
       hasStringType = hasStringType fl \<or> dataType_code dataType = ''string'',
       hasBooleanType = hasBooleanType fl \<or> dataType_code dataType = ''boolean'',
       hasCodingType = hasCodingType fl \<or> dataType_code dataType = ''Coding'',
       hasContactPointType = hasContactPointType fl \<or> dataType_code dataType = ''ContactPoint'' \<rparr>"

text \<open>
  Line 55: the loop over a list \<open>dataTypes\<close>, from the first element to the last.
\<close>

definition typeFlags :: "DataType list \<Rightarrow> TypeFlags" where
  "typeFlags ts = foldl updateFlags initialFlags ts"

text \<open>
  Lines 67 to 90: the local \<open>fields\<close> of the \<open>system\<close> block, from the locals it reads:
  \<open>dataTypeExists\<close> (here \<open>known\<close>), the flags, \<open>compiled.path\<close> and the suffix. Each
  \<open>push\<close> appends at the end.
\<close>

definition systemFields :: "bool \<Rightarrow> TypeFlags \<Rightarrow> CompiledSearchParam \<Rightarrow> bool \<Rightarrow> string list" where
  "systemFields known fl compiled useKeywordSubFields =
     (let sfx = keywordSuffix useKeywordSubFields compiled;
          fields = []
      in if known then
           (let fields = (if hasIdentifierType fl \<or> hasCodingType fl
                          then fields @ [path compiled @ ''.system'' @ sfx] else fields);
                fields = (if hasCodeableConceptType fl
                          then fields @ [path compiled @ ''.coding.system'' @ sfx] else fields)
            in if length fields = 0
               then fields @ [path compiled @ ''.system'' @ sfx,
                              path compiled @ ''.coding.system'' @ sfx]
               else fields)
         else fields @ [path compiled @ ''.system'' @ sfx,
                        path compiled @ ''.coding.system'' @ sfx])"

text \<open>Lines 105 to 157: the local \<open>fields\<close> of the \<open>code\<close> block.\<close>

definition codeFields :: "bool \<Rightarrow> TypeFlags \<Rightarrow> CompiledSearchParam \<Rightarrow> bool \<Rightarrow> string list" where
  "codeFields known fl compiled useKeywordSubFields =
     (let sfx = keywordSuffix useKeywordSubFields compiled;
          fields = []
      in if known then
           (let fields = (if hasCodingType fl
                          then fields @ [path compiled @ ''.code'' @ sfx] else fields);
                fields = (if hasCodeableConceptType fl
                          then fields @ [path compiled @ ''.coding.code'' @ sfx] else fields);
                fields = (if hasIdentifierType fl \<or> hasContactPointType fl
                          then fields @ [path compiled @ ''.value'' @ sfx] else fields);
                fields = (if hasCodeType fl \<or> hasStringType fl \<or> hasBooleanType fl \<or> hasIdType fl
                          then (let fields = (if useKeywordSuffix useKeywordSubFields compiled
                                                 \<and> hasBooleanType fl
                                              then fields @ [path compiled] else fields)
                                in fields @ [path compiled @ sfx])
                          else fields)
            in if length fields = 0
               then fields @ [path compiled @ ''.code'' @ sfx,
                              path compiled @ ''.coding.code'' @ sfx,
                              path compiled @ ''.value'' @ sfx,
                              path compiled @ sfx]
               else fields)
         else
           (let fields = fields @ [path compiled @ ''.code'' @ sfx,
                                   path compiled @ ''.coding.code'' @ sfx,
                                   path compiled @ ''.value'' @ sfx,
                                   path compiled @ sfx]
            in if useKeywordSuffix useKeywordSubFields compiled
               then fields @ [path compiled] else fields))"

text \<open>
  Lines 66, 92 to 101, 159 to 178: the three optional pushes onto \<open>queries\<close>, in the
  order of the source. \<open>lenient\<close> is always \<open>true\<close>; the field of the \<open>exists\<close> clause
  never takes the keyword suffix.
\<close>

definition queries :: "bool \<Rightarrow> TypeFlags \<Rightarrow> CompiledSearchParam \<Rightarrow> TokenSearchValue \<Rightarrow> bool \<Rightarrow> Query list" where
  "queries known fl compiled v useKeywordSubFields =
     (let qs = [];
          qs = (case system v of
                  None \<Rightarrow> qs
                | Some s \<Rightarrow> qs @ [MultiMatch (systemFields known fl compiled useKeywordSubFields) s True]);
          qs = (case code v of
                  None \<Rightarrow> qs
                | Some cd \<Rightarrow> qs @ [MultiMatch (codeFields known fl compiled useKeywordSubFields) cd True]);
          qs = (if explicitNoSystemProperty v = Some True
                then qs @ [BoolMustNotExists (path compiled @ ''.system'')] else qs)
      in qs)"

text \<open>
  The whole function: the guard of lines 25 to 27; the table lookup and the loop of lines
  44 to 64, where \<open>dataTypes.forEach\<close> throws \<open>TypeError\<close> on a value that is not a
  list; the three blocks; then lines 180 to 188.
\<close>

definition tokenQuery ::
  "ObjectPrototype \<Rightarrow> TokenDataTypesMap \<Rightarrow> CompiledSearchParam \<Rightarrow> TokenSearchValue \<Rightarrow> bool
     \<Rightarrow> string option \<Rightarrow> error + Query" where
  "tokenQuery proto tokenDataTypesMap compiled v useKeywordSubFields modifier =
     (if unsupportedModifier modifier
      then Inl (InvalidSearchParameterError (unsupportedModifierMessage modifier))
      else (case dataTypes proto tokenDataTypesMap compiled of
              None \<Rightarrow> Inl TypeError
            | Some ts \<Rightarrow>
                (let qs = queries (dataTypeExists proto tokenDataTypesMap compiled) (typeFlags ts)
                            compiled v useKeywordSubFields
                 in if length qs = 1 then Inr (qs ! 0) else Inr (BoolMust qs))))"

subsection \<open>A runtime for the examples\<close>

text \<open>
  The properties of \<open>Object.prototype\<close> as ECMAScript 2019 specifies them. Each is a
  function, but \<open>__proto__\<close>, whose value on a plain object is \<open>Object.prototype\<close>
  itself. A function has \<open>length\<close> and \<open>name\<close> and inherits the properties of
  \<open>Function.prototype\<close> and of \<open>Object.prototype\<close>; \<open>constructor\<close> is the function
  \<open>Object\<close>, which has its static methods and \<open>prototype\<close> besides.
\<close>

definition objectPrototypeNames :: "string list" where
  "objectPrototypeNames =
     [''constructor'', ''__defineGetter__'', ''__defineSetter__'', ''hasOwnProperty'',
      ''__lookupGetter__'', ''__lookupSetter__'', ''isPrototypeOf'', ''propertyIsEnumerable'',
      ''toString'', ''valueOf'', ''__proto__'', ''toLocaleString'']"

definition functionNames :: "string list" where
  "functionNames =
     [''length'', ''name'', ''arguments'', ''caller'', ''apply'', ''bind'', ''call'']
     @ objectPrototypeNames"

definition objectConstructorNames :: "string list" where
  "objectConstructorNames =
     [''prototype'', ''assign'', ''create'', ''defineProperties'', ''defineProperty'',
      ''entries'', ''freeze'', ''fromEntries'', ''getOwnPropertyDescriptor'',
      ''getOwnPropertyDescriptors'', ''getOwnPropertyNames'', ''getOwnPropertySymbols'',
      ''getPrototypeOf'', ''is'', ''isExtensible'', ''isFrozen'', ''isSealed'', ''keys'',
      ''preventExtensions'', ''seal'', ''setPrototypeOf'', ''values'']
     @ functionNames"

definition objectPrototype :: ObjectPrototype where
  "objectPrototype k =
     (if k \<in> set objectPrototypeNames
      then Some (\<lambda>p. p \<in> set (if k = ''__proto__'' then objectPrototypeNames
                               else if k = ''constructor'' then objectConstructorNames
                               else functionNames))
      else None)"

subsection \<open>Reading a query fragment\<close>

text \<open>The clauses a fragment stands for: those of a \<open>bool.must\<close>, or the fragment itself.\<close>

fun clauses :: "Query \<Rightarrow> Query list" where
  "clauses (BoolMust qs) = qs"
| "clauses q = [q]"

text \<open>Every fragment that occurs in a fragment, itself included.\<close>

fun subQueries :: "Query \<Rightarrow> Query list" where
  "subQueries (BoolMust qs) = BoolMust qs # concat (map subQueries qs)"
| "subQueries q = [q]"

text \<open>Every field name that occurs in a fragment.\<close>

fun fieldNames :: "Query \<Rightarrow> string list" where
  "fieldNames (MultiMatch fs s l) = fs"
| "fieldNames (BoolMustNotExists f) = [f]"
| "fieldNames (BoolMust qs) = concat (map fieldNames qs)"

section \<open>Properties\<close>

subsection \<open>Auxiliary facts\<close>

text \<open>After the loop, a flag is set exactly when its tag occurs in the list or it was set before.\<close>

lemma foldl_updateFlags:
  "foldl updateFlags fl ts =
     \<lparr> hasIdentifierType = hasIdentifierType fl \<or> (\<exists>t \<in> set ts. dataType_code t = ''Identifier''),
       hasCodeType = hasCodeType fl \<or> (\<exists>t \<in> set ts. dataType_code t = ''code''),
       hasCodeableConceptType = hasCodeableConceptType fl \<or> (\<exists>t \<in> set ts. dataType_code t = ''CodeableConcept''),
       hasIdType = hasIdType fl \<or> (\<exists>t \<in> set ts. dataType_code t = ''id''),
       hasStringType = hasStringType fl \<or> (\<exists>t \<in> set ts. dataType_code t = ''string''),
       hasBooleanType = hasBooleanType fl \<or> (\<exists>t \<in> set ts. dataType_code t = ''boolean''),
       hasCodingType = hasCodingType fl \<or> (\<exists>t \<in> set ts. dataType_code t = ''Coding''),
       hasContactPointType = hasContactPointType fl \<or> (\<exists>t \<in> set ts. dataType_code t = ''ContactPoint'') \<rparr>"
proof (induction ts arbitrary: fl)
  case Nil
  show ?case by simp
next
  case (Cons t ts)
  show ?case
    unfolding foldl_Cons Cons.IH
    by (simp add: updateFlags_def disj_assoc)
qed

lemma typeFlags_eq:
  "typeFlags ts =
     \<lparr> hasIdentifierType = (\<exists>t \<in> set ts. dataType_code t = ''Identifier''),
       hasCodeType = (\<exists>t \<in> set ts. dataType_code t = ''code''),
       hasCodeableConceptType = (\<exists>t \<in> set ts. dataType_code t = ''CodeableConcept''),
       hasIdType = (\<exists>t \<in> set ts. dataType_code t = ''id''),
       hasStringType = (\<exists>t \<in> set ts. dataType_code t = ''string''),
       hasBooleanType = (\<exists>t \<in> set ts. dataType_code t = ''boolean''),
       hasCodingType = (\<exists>t \<in> set ts. dataType_code t = ''Coding''),
       hasContactPointType = (\<exists>t \<in> set ts. dataType_code t = ''ContactPoint'') \<rparr>"
  unfolding typeFlags_def foldl_updateFlags by (simp add: initialFlags_def)

lemma not_dataTypeExists_dataTypes: "\<not> dataTypeExists proto tm c \<Longrightarrow> dataTypes proto tm c = Some []"
  by (simp add: dataTypes_def)

lemma useKeywordSuffix_iff: "useKeywordSuffix u c \<longleftrightarrow> u \<and> path c \<noteq> ''id''"
  by (simp add: useKeywordSuffix_def FIELDS_WITHOUT_KEYWORD_def)

lemma keywordSuffix_eq: "keywordSuffix u c = (if u \<and> path c \<noteq> ''id'' then ''.keyword'' else [])"
  by (simp add: keywordSuffix_def useKeywordSuffix_iff)

text \<open>The two field lists when \<open>dataTypeExists\<close> is false.\<close>

lemma systemFields_unknown:
  "systemFields False fl c u =
     [path c @ ''.system'' @ keywordSuffix u c, path c @ ''.coding.system'' @ keywordSuffix u c]"
  by (simp add: systemFields_def Let_def)

lemma codeFields_unknown:
  "codeFields False fl c u =
     [path c @ ''.code'' @ keywordSuffix u c, path c @ ''.coding.code'' @ keywordSuffix u c,
      path c @ ''.value'' @ keywordSuffix u c, path c @ keywordSuffix u c]
     @ (if useKeywordSuffix u c then [path c] else [])"
  by (simp add: codeFields_def Let_def)

text \<open>The two field lists when \<open>dataTypeExists\<close> is true and no flag is set.\<close>

lemma systemFields_no_flags:
  "systemFields True initialFlags c u =
     [path c @ ''.system'' @ keywordSuffix u c, path c @ ''.coding.system'' @ keywordSuffix u c]"
  by (simp add: systemFields_def initialFlags_def Let_def)

lemma codeFields_no_flags:
  "codeFields True initialFlags c u =
     [path c @ ''.code'' @ keywordSuffix u c, path c @ ''.coding.code'' @ keywordSuffix u c,
      path c @ ''.value'' @ keywordSuffix u c, path c @ keywordSuffix u c]"
  by (simp add: codeFields_def initialFlags_def Let_def)

lemma systemFields_nonempty: "systemFields known fl c u \<noteq> []"
  by (simp add: systemFields_def Let_def)

lemma codeFields_nonempty: "codeFields known fl c u \<noteq> []"
  by (simp add: codeFields_def Let_def)

text \<open>The list \<open>queries\<close> as the concatenation of its three optional parts.\<close>

lemma queries_eq:
  "queries known fl c v u =
     (case system v of None \<Rightarrow> [] | Some s \<Rightarrow> [MultiMatch (systemFields known fl c u) s True])
     @ (case code v of None \<Rightarrow> [] | Some cd \<Rightarrow> [MultiMatch (codeFields known fl c u) cd True])
     @ (if explicitNoSystemProperty v = Some True then [BoolMustNotExists (path c @ ''.system'')] else [])"
  by (simp add: queries_def Let_def split: option.splits)

text \<open>A fragment is returned only after the lookup gave a list.\<close>

lemma tokenQuery_Inr:
  assumes "tokenQuery proto tm c v u m = Inr q"
  obtains ts where "dataTypes proto tm c = Some ts"
    and "q = (if length (queries (dataTypeExists proto tm c) (typeFlags ts) c v u) = 1
              then queries (dataTypeExists proto tm c) (typeFlags ts) c v u ! 0
              else BoolMust (queries (dataTypeExists proto tm c) (typeFlags ts) c v u))"
  using assms by (auto simp: tokenQuery_def Let_def split: if_splits option.splits)

text \<open>Where the \<open>system\<close> clause and the \<open>code\<close> clause stand in a result.\<close>

lemma system_clause_first:
  assumes "tokenQuery proto tm c v u m = Inr q" and "dataTypes proto tm c = Some ts"
    and "system v = Some s"
  shows "clauses q ! 0 = MultiMatch (systemFields (dataTypeExists proto tm c) (typeFlags ts) c u) s True"
  using assms(1) assms(2,3) by (elim tokenQuery_Inr) (simp add: queries_eq split: option.splits)

lemma code_clause_next:
  assumes "tokenQuery proto tm c v u m = Inr q" and "dataTypes proto tm c = Some ts"
    and "code v = Some cd"
  shows "clauses q ! (if system v = None then 0 else 1)
       = MultiMatch (codeFields (dataTypeExists proto tm c) (typeFlags ts) c u) cd True"
  using assms(1) assms(2,3) by (elim tokenQuery_Inr) (simp add: queries_eq split: option.splits)

lemma unsupportedModifier_iff:
  "unsupportedModifier m \<longleftrightarrow> (\<exists>md. m = Some md \<and> md \<noteq> [] \<and> md \<notin> set SUPPORTED_MODIFIERS)"
  by (simp add: unsupportedModifier_def split: option.splits)

text \<open>The whole outcome of the function.\<close>

lemma tokenQuery_outcome:
  "tokenQuery proto tm c v u m =
     (if unsupportedModifier m
      then Inl (InvalidSearchParameterError (unsupportedModifierMessage m))
      else case dataTypes proto tm c of
             None \<Rightarrow> Inl TypeError
           | Some ts \<Rightarrow>
               Inr (if length (queries (dataTypeExists proto tm c) (typeFlags ts) c v u) = 1
                    then queries (dataTypeExists proto tm c) (typeFlags ts) c v u ! 0
                    else BoolMust (queries (dataTypeExists proto tm c) (typeFlags ts) c v u)))"
  by (simp add: tokenQuery_def Let_def split: option.splits)

text \<open>
  A path that the table's entry for the resource type does not have, but that
  \<open>Object.prototype\<close> has, ends in \<open>TypeError\<close>.
\<close>

lemma inherited_path_TypeError:
  assumes "\<not> unsupportedModifier m" and "tm (resourceType c) = Some byPath"
    and "byPath (path c) = None" and "proto (path c) = Some has"
  shows "tokenQuery proto tm c v u m = Inl TypeError"
  using assms by (simp add: tokenQuery_outcome dataTypes_def dataTypeExists_def)

text \<open>The equations that evaluate the function on a concrete input.\<close>

lemmas eval_defs = tokenQuery_def queries_def codeFields_def systemFields_def typeFlags_def
  dataTypes_def dataTypeExists_def keywordSuffix_def useKeywordSuffix_def unsupportedModifier_def
  unsupportedModifierMessage_def FIELDS_WITHOUT_KEYWORD_def SUPPORTED_MODIFIERS_def
  updateFlags_def initialFlags_def objectPrototype_def objectPrototypeNames_def functionNames_def
  objectConstructorNames_def Let_def

subsection \<open>Fallback with a known type and fallback with an unknown type\<close>

text \<open>
  C1 (as amended). Let the table have an entry for the resource type and path, a list in
  which none of the eight tags occurs, and compare with a table for which
  \<open>dataTypeExists\<close> is false, for the same path, value and \<open>useKeywordSubFields\<close>. With
  the entry, the fields of the \<open>system\<close> clause are exactly \<open>path.system\<close> and
  \<open>path.coding.system\<close>, each with the suffix, and the \<open>system\<close> clause without the
  entry is the same clause. With the entry, the fields of the \<open>code\<close> clause are exactly
  \<open>path.code\<close>, \<open>path.coding.code\<close>, \<open>path.value\<close> and \<open>path\<close>, each with the
  suffix, and no bare path; without the entry they are these four followed by the bare
  path when the keyword suffix is in use (\<open>useKeywordSubFields\<close> and the path is not
  \<open>id\<close>). The two fragments are equal whenever \<open>code\<close> is undefined or the keyword
  suffix is not in use.
\<close>

theorem fallback_known_without_flags:
  assumes "dataTypeExists proto tmK c" and "dataTypes proto tmK c = Some ts"
    and "typeFlags ts = initialFlags" and "\<not> dataTypeExists proto tmU c"
    and "tokenQuery proto tmK c v u m = Inr qK" and "tokenQuery proto tmU c v u m = Inr qU"
  shows "(\<forall>s. system v = Some s \<longrightarrow>
            clauses qK ! 0 =
              MultiMatch [path c @ ''.system'' @ (if u \<and> path c \<noteq> ''id'' then ''.keyword'' else []),
                          path c @ ''.coding.system'' @ (if u \<and> path c \<noteq> ''id'' then ''.keyword'' else [])] s True
          \<and> clauses qU ! 0 = clauses qK ! 0)
       \<and> (\<forall>cd. code v = Some cd \<longrightarrow>
            clauses qK ! (if system v = None then 0 else 1) =
              MultiMatch [path c @ ''.code'' @ (if u \<and> path c \<noteq> ''id'' then ''.keyword'' else []),
                          path c @ ''.coding.code'' @ (if u \<and> path c \<noteq> ''id'' then ''.keyword'' else []),
                          path c @ ''.value'' @ (if u \<and> path c \<noteq> ''id'' then ''.keyword'' else []),
                          path c @ (if u \<and> path c \<noteq> ''id'' then ''.keyword'' else [])] cd True
          \<and> clauses qU ! (if system v = None then 0 else 1) =
              MultiMatch ([path c @ ''.code'' @ (if u \<and> path c \<noteq> ''id'' then ''.keyword'' else []),
                           path c @ ''.coding.code'' @ (if u \<and> path c \<noteq> ''id'' then ''.keyword'' else []),
                           path c @ ''.value'' @ (if u \<and> path c \<noteq> ''id'' then ''.keyword'' else []),
                           path c @ (if u \<and> path c \<noteq> ''id'' then ''.keyword'' else [])]
                          @ (if u \<and> path c \<noteq> ''id'' then [path c] else [])) cd True)
       \<and> (code v = None \<or> \<not> (u \<and> path c \<noteq> ''id'') \<longrightarrow> qU = qK)"
proof -
  have dU: "dataTypes proto tmU c = Some []"
    using assms(4) by (rule not_dataTypeExists_dataTypes)
  have sK: "systemFields (dataTypeExists proto tmK c) (typeFlags ts) c u =
      [path c @ ''.system'' @ (if u \<and> path c \<noteq> ''id'' then ''.keyword'' else []),
       path c @ ''.coding.system'' @ (if u \<and> path c \<noteq> ''id'' then ''.keyword'' else [])]"
    using assms(1,3) by (simp add: systemFields_no_flags keywordSuffix_eq)
  have sU: "systemFields (dataTypeExists proto tmU c) (typeFlags []) c u =
      [path c @ ''.system'' @ (if u \<and> path c \<noteq> ''id'' then ''.keyword'' else []),
       path c @ ''.coding.system'' @ (if u \<and> path c \<noteq> ''id'' then ''.keyword'' else [])]"
    using assms(4) by (simp add: systemFields_unknown keywordSuffix_eq)
  have cK: "codeFields (dataTypeExists proto tmK c) (typeFlags ts) c u =
      [path c @ ''.code'' @ (if u \<and> path c \<noteq> ''id'' then ''.keyword'' else []),
       path c @ ''.coding.code'' @ (if u \<and> path c \<noteq> ''id'' then ''.keyword'' else []),
       path c @ ''.value'' @ (if u \<and> path c \<noteq> ''id'' then ''.keyword'' else []),
       path c @ (if u \<and> path c \<noteq> ''id'' then ''.keyword'' else [])]"
    using assms(1,3) by (simp add: codeFields_no_flags keywordSuffix_eq)
  have cU: "codeFields (dataTypeExists proto tmU c) (typeFlags []) c u =
      [path c @ ''.code'' @ (if u \<and> path c \<noteq> ''id'' then ''.keyword'' else []),
       path c @ ''.coding.code'' @ (if u \<and> path c \<noteq> ''id'' then ''.keyword'' else []),
       path c @ ''.value'' @ (if u \<and> path c \<noteq> ''id'' then ''.keyword'' else []),
       path c @ (if u \<and> path c \<noteq> ''id'' then ''.keyword'' else [])]
      @ (if u \<and> path c \<noteq> ''id'' then [path c] else [])"
    using assms(4) by (simp add: codeFields_unknown keywordSuffix_eq useKeywordSuffix_iff)
  have a: "clauses qK ! 0 =
      MultiMatch [path c @ ''.system'' @ (if u \<and> path c \<noteq> ''id'' then ''.keyword'' else []),
                  path c @ ''.coding.system'' @ (if u \<and> path c \<noteq> ''id'' then ''.keyword'' else [])] s True
      \<and> clauses qU ! 0 = clauses qK ! 0" if "system v = Some s" for s
    using system_clause_first [OF assms(5) assms(2) that] system_clause_first [OF assms(6) dU that]
    unfolding sK sU by simp
  have b: "clauses qK ! (if system v = None then 0 else 1) =
      MultiMatch [path c @ ''.code'' @ (if u \<and> path c \<noteq> ''id'' then ''.keyword'' else []),
                  path c @ ''.coding.code'' @ (if u \<and> path c \<noteq> ''id'' then ''.keyword'' else []),
                  path c @ ''.value'' @ (if u \<and> path c \<noteq> ''id'' then ''.keyword'' else []),
                  path c @ (if u \<and> path c \<noteq> ''id'' then ''.keyword'' else [])] cd True
      \<and> clauses qU ! (if system v = None then 0 else 1) =
      MultiMatch ([path c @ ''.code'' @ (if u \<and> path c \<noteq> ''id'' then ''.keyword'' else []),
                   path c @ ''.coding.code'' @ (if u \<and> path c \<noteq> ''id'' then ''.keyword'' else []),
                   path c @ ''.value'' @ (if u \<and> path c \<noteq> ''id'' then ''.keyword'' else []),
                   path c @ (if u \<and> path c \<noteq> ''id'' then ''.keyword'' else [])]
                  @ (if u \<and> path c \<noteq> ''id'' then [path c] else [])) cd True" if "code v = Some cd" for cd
    using code_clause_next [OF assms(5) assms(2) that] code_clause_next [OF assms(6) dU that]
    unfolding cK cU by simp
  have e: "qU = qK" if "code v = None \<or> \<not> (u \<and> path c \<noteq> ''id'')"
  proof -
    have "queries (dataTypeExists proto tmU c) (typeFlags []) c v u
        = queries (dataTypeExists proto tmK c) (typeFlags ts) c v u"
      using that unfolding queries_eq sK sU cK cU by (auto split: option.splits)
    moreover have "Inr qU = tokenQuery proto tmU c v u m" "Inr qK = tokenQuery proto tmK c v u m"
      using assms(5,6) by simp_all
    ultimately show ?thesis
      using assms(2) dU by (simp add: tokenQuery_outcome split: if_splits)
  qed
  show ?thesis
    using a b e by blast
qed

text \<open>
  The theorem at \<open>Patient\<close>, path \<open>foo\<close>, whose only type tag is \<open>uri\<close>, which is none of
  the eight, with keyword sub-fields.
\<close>

theorem fallback_known_without_flags_witness:
  "dataTypeExists objectPrototype [''Patient'' \<mapsto> [''foo'' \<mapsto> [DataType ''uri'']]] \<lparr>resourceType = ''Patient'', path = ''foo''\<rparr>
   \<and> dataTypes objectPrototype [''Patient'' \<mapsto> [''foo'' \<mapsto> [DataType ''uri'']]] \<lparr>resourceType = ''Patient'', path = ''foo''\<rparr>
       = Some [DataType ''uri'']
   \<and> typeFlags [DataType ''uri''] = initialFlags
   \<and> \<not> dataTypeExists objectPrototype Map.empty \<lparr>resourceType = ''Patient'', path = ''foo''\<rparr>
   \<and> tokenQuery objectPrototype [''Patient'' \<mapsto> [''foo'' \<mapsto> [DataType ''uri'']]] \<lparr>resourceType = ''Patient'', path = ''foo''\<rparr>
        \<lparr>system = Some ''s'', code = Some ''x'', explicitNoSystemProperty = None\<rparr> True None
      = Inr (BoolMust
          [MultiMatch [''foo.system.keyword'', ''foo.coding.system.keyword''] ''s'' True,
           MultiMatch [''foo.code.keyword'', ''foo.coding.code.keyword'', ''foo.value.keyword'',
                       ''foo.keyword''] ''x'' True])
   \<and> tokenQuery objectPrototype Map.empty \<lparr>resourceType = ''Patient'', path = ''foo''\<rparr>
        \<lparr>system = Some ''s'', code = Some ''x'', explicitNoSystemProperty = None\<rparr> True None
      = Inr (BoolMust
          [MultiMatch [''foo.system.keyword'', ''foo.coding.system.keyword''] ''s'' True,
           MultiMatch [''foo.code.keyword'', ''foo.coding.code.keyword'', ''foo.value.keyword'',
                       ''foo.keyword'', ''foo''] ''x'' True])"
proof -
  have h1: "dataTypeExists objectPrototype [''Patient'' \<mapsto> [''foo'' \<mapsto> [DataType ''uri'']]] \<lparr>resourceType = ''Patient'', path = ''foo''\<rparr>"
    by (simp add: dataTypeExists_def)
  have h2: "dataTypes objectPrototype [''Patient'' \<mapsto> [''foo'' \<mapsto> [DataType ''uri'']]] \<lparr>resourceType = ''Patient'', path = ''foo''\<rparr>
       = Some [DataType ''uri'']"
    by (simp add: dataTypes_def dataTypeExists_def)
  have h3: "typeFlags [DataType ''uri''] = initialFlags"
    by (simp add: typeFlags_def updateFlags_def initialFlags_def)
  have h4: "\<not> dataTypeExists objectPrototype Map.empty \<lparr>resourceType = ''Patient'', path = ''foo''\<rparr>"
    by (simp add: dataTypeExists_def objectPrototype_def objectPrototypeNames_def)
  have h5: "tokenQuery objectPrototype [''Patient'' \<mapsto> [''foo'' \<mapsto> [DataType ''uri'']]] \<lparr>resourceType = ''Patient'', path = ''foo''\<rparr>
        \<lparr>system = Some ''s'', code = Some ''x'', explicitNoSystemProperty = None\<rparr> True None
      = Inr (BoolMust
          [MultiMatch [''foo.system.keyword'', ''foo.coding.system.keyword''] ''s'' True,
           MultiMatch [''foo.code.keyword'', ''foo.coding.code.keyword'', ''foo.value.keyword'',
                       ''foo.keyword''] ''x'' True])"
    by (simp add: eval_defs)
  have h6: "tokenQuery objectPrototype Map.empty \<lparr>resourceType = ''Patient'', path = ''foo''\<rparr>
        \<lparr>system = Some ''s'', code = Some ''x'', explicitNoSystemProperty = None\<rparr> True None
      = Inr (BoolMust
          [MultiMatch [''foo.system.keyword'', ''foo.coding.system.keyword''] ''s'' True,
           MultiMatch [''foo.code.keyword'', ''foo.coding.code.keyword'', ''foo.value.keyword'',
                       ''foo.keyword'', ''foo''] ''x'' True])"
    by (simp add: eval_defs)
  show ?thesis
    using fallback_known_without_flags [OF h1 h2 h3 h4 h5 h6] h1 h2 h3 h4 h5 h6 by simp
qed

text \<open>
  C1 as stated fails at the same table and path: with the entry the \<open>code\<close> clause has
  four fields, without it five, the bare path \<open>foo\<close> being the fifth.
\<close>

theorem fallback_bare_path_counterexample:
  "dataTypeExists objectPrototype [''Patient'' \<mapsto> [''foo'' \<mapsto> [DataType ''uri'']]] \<lparr>resourceType = ''Patient'', path = ''foo''\<rparr>
   \<and> typeFlags [DataType ''uri''] = initialFlags
   \<and> \<not> dataTypeExists objectPrototype Map.empty \<lparr>resourceType = ''Patient'', path = ''foo''\<rparr>
   \<and> tokenQuery objectPrototype [''Patient'' \<mapsto> [''foo'' \<mapsto> [DataType ''uri'']]] \<lparr>resourceType = ''Patient'', path = ''foo''\<rparr>
        \<lparr>system = None, code = Some ''x'', explicitNoSystemProperty = None\<rparr> True None
      = Inr (MultiMatch [''foo.code.keyword'', ''foo.coding.code.keyword'', ''foo.value.keyword'',
                         ''foo.keyword''] ''x'' True)
   \<and> tokenQuery objectPrototype Map.empty \<lparr>resourceType = ''Patient'', path = ''foo''\<rparr>
        \<lparr>system = None, code = Some ''x'', explicitNoSystemProperty = None\<rparr> True None
      = Inr (MultiMatch [''foo.code.keyword'', ''foo.coding.code.keyword'', ''foo.value.keyword'',
                         ''foo.keyword'', ''foo''] ''x'' True)
   \<and> [''foo.code.keyword'', ''foo.coding.code.keyword'', ''foo.value.keyword'', ''foo.keyword'']
      \<noteq> [''foo.code.keyword'', ''foo.coding.code.keyword'', ''foo.value.keyword'', ''foo.keyword'', ''foo'']"
  by (simp add: eval_defs)

subsection \<open>The fields selected when the type is unknown\<close>

text \<open>
  C2 (as amended). When \<open>dataTypeExists\<close> is false for the resource type and path, and
  \<open>tokenQuery\<close> returns a fragment: if \<open>system\<close> is defined, the first clause is the
  \<open>multi_match\<close> of the \<open>system\<close> value on exactly \<open>path.system\<close> and
  \<open>path.coding.system\<close>, each with the suffix; if \<open>code\<close> is defined, the next clause
  is the \<open>multi_match\<close> of the \<open>code\<close> value on exactly \<open>path.code\<close>,
  \<open>path.coding.code\<close>, \<open>path.value\<close> and \<open>path\<close>, each with the suffix, followed by
  the bare path when \<open>useKeywordSubFields\<close> is true and the path is not \<open>id\<close>. The
  suffix is \<open>.keyword\<close> when \<open>useKeywordSubFields\<close> is true and the path is not \<open>id\<close>,
  and empty otherwise.
\<close>

theorem unknown_type_fields:
  assumes "\<not> dataTypeExists proto tm c" and "tokenQuery proto tm c v u m = Inr q"
  shows "(\<forall>s. system v = Some s \<longrightarrow>
            clauses q ! 0 =
              MultiMatch [path c @ ''.system'' @ (if u \<and> path c \<noteq> ''id'' then ''.keyword'' else []),
                          path c @ ''.coding.system'' @ (if u \<and> path c \<noteq> ''id'' then ''.keyword'' else [])] s True)
       \<and> (\<forall>cd. code v = Some cd \<longrightarrow>
            clauses q ! (if system v = None then 0 else 1) =
              MultiMatch ([path c @ ''.code'' @ (if u \<and> path c \<noteq> ''id'' then ''.keyword'' else []),
                           path c @ ''.coding.code'' @ (if u \<and> path c \<noteq> ''id'' then ''.keyword'' else []),
                           path c @ ''.value'' @ (if u \<and> path c \<noteq> ''id'' then ''.keyword'' else []),
                           path c @ (if u \<and> path c \<noteq> ''id'' then ''.keyword'' else [])]
                          @ (if u \<and> path c \<noteq> ''id'' then [path c] else [])) cd True)"
proof -
  have d: "dataTypes proto tm c = Some []"
    using assms(1) by (rule not_dataTypeExists_dataTypes)
  have sf: "systemFields (dataTypeExists proto tm c) (typeFlags []) c u =
      [path c @ ''.system'' @ (if u \<and> path c \<noteq> ''id'' then ''.keyword'' else []),
       path c @ ''.coding.system'' @ (if u \<and> path c \<noteq> ''id'' then ''.keyword'' else [])]"
    using assms(1) by (simp add: systemFields_unknown keywordSuffix_eq)
  have cf: "codeFields (dataTypeExists proto tm c) (typeFlags []) c u =
      [path c @ ''.code'' @ (if u \<and> path c \<noteq> ''id'' then ''.keyword'' else []),
       path c @ ''.coding.code'' @ (if u \<and> path c \<noteq> ''id'' then ''.keyword'' else []),
       path c @ ''.value'' @ (if u \<and> path c \<noteq> ''id'' then ''.keyword'' else []),
       path c @ (if u \<and> path c \<noteq> ''id'' then ''.keyword'' else [])]
      @ (if u \<and> path c \<noteq> ''id'' then [path c] else [])"
    using assms(1) by (simp add: codeFields_unknown keywordSuffix_eq useKeywordSuffix_iff)
  show ?thesis
    using system_clause_first [OF assms(2) d] code_clause_next [OF assms(2) d]
    unfolding sf cf by blast
qed

text \<open>The theorem at an unknown path \<open>foo\<close> with keyword sub-fields.\<close>

theorem unknown_type_fields_witness:
  "\<not> dataTypeExists objectPrototype Map.empty \<lparr>resourceType = ''X'', path = ''foo''\<rparr>
   \<and> tokenQuery objectPrototype Map.empty \<lparr>resourceType = ''X'', path = ''foo''\<rparr>
        \<lparr>system = Some ''s'', code = Some ''bar'', explicitNoSystemProperty = None\<rparr> True None
      = Inr (BoolMust
          [MultiMatch [''foo.system.keyword'', ''foo.coding.system.keyword''] ''s'' True,
           MultiMatch [''foo.code.keyword'', ''foo.coding.code.keyword'', ''foo.value.keyword'',
                       ''foo.keyword'', ''foo''] ''bar'' True])
   \<and> clauses (BoolMust
          [MultiMatch [''foo.system.keyword'', ''foo.coding.system.keyword''] ''s'' True,
           MultiMatch [''foo.code.keyword'', ''foo.coding.code.keyword'', ''foo.value.keyword'',
                       ''foo.keyword'', ''foo''] ''bar'' True]) ! 1
      = MultiMatch [''foo.code.keyword'', ''foo.coding.code.keyword'', ''foo.value.keyword'',
                    ''foo.keyword'', ''foo''] ''bar'' True"
proof -
  have h1: "\<not> dataTypeExists objectPrototype Map.empty \<lparr>resourceType = ''X'', path = ''foo''\<rparr>"
    by (simp add: dataTypeExists_def objectPrototype_def objectPrototypeNames_def)
  have h2: "tokenQuery objectPrototype Map.empty \<lparr>resourceType = ''X'', path = ''foo''\<rparr>
        \<lparr>system = Some ''s'', code = Some ''bar'', explicitNoSystemProperty = None\<rparr> True None
      = Inr (BoolMust
          [MultiMatch [''foo.system.keyword'', ''foo.coding.system.keyword''] ''s'' True,
           MultiMatch [''foo.code.keyword'', ''foo.coding.code.keyword'', ''foo.value.keyword'',
                       ''foo.keyword'', ''foo''] ''bar'' True])"
    by (simp add: eval_defs)
  show ?thesis
    using unknown_type_fields [OF h1 h2] h1 h2 by simp
qed

text \<open>
  C2 as stated fails at path \<open>id\<close> with \<open>useKeywordSubFields\<close> true: the bare path is
  pushed under \<open>useKeywordSuffix\<close> (line 154), which is false for \<open>id\<close>, so the list has
  four fields and not the four followed by the bare path.
\<close>

theorem unknown_type_id_counterexample:
  "\<not> dataTypeExists objectPrototype Map.empty \<lparr>resourceType = ''Patient'', path = ''id''\<rparr>
   \<and> tokenQuery objectPrototype Map.empty \<lparr>resourceType = ''Patient'', path = ''id''\<rparr>
        \<lparr>system = None, code = Some ''x'', explicitNoSystemProperty = None\<rparr> True None
      = Inr (MultiMatch [''id.code'', ''id.coding.code'', ''id.value'', ''id''] ''x'' True)
   \<and> tokenQuery objectPrototype Map.empty \<lparr>resourceType = ''Patient'', path = ''id''\<rparr>
        \<lparr>system = None, code = Some ''x'', explicitNoSystemProperty = None\<rparr> True None
      \<noteq> Inr (MultiMatch ([''id.code'', ''id.coding.code'', ''id.value'', ''id''] @ [''id'']) ''x'' True)"
  by (simp add: eval_defs)

subsection \<open>The modifier guard\<close>

text \<open>
  C3 (as amended). \<open>tokenQuery\<close> throws \<open>InvalidSearchParameterError\<close>, with the
  message \<open>Unsupported token search modifier: \<close> followed by the modifier, if and only
  if the modifier is a non-empty string that is not in \<open>SUPPORTED_MODIFIERS\<close>; that
  list is empty. When the modifier is undefined or the empty string, and the lookup of
  line 46 gives a list of the table or nothing, \<open>tokenQuery\<close> returns a fragment.
\<close>

theorem modifier_error_iff:
  "(tokenQuery proto tm c v u m = Inl (InvalidSearchParameterError msg) \<longleftrightarrow>
      (\<exists>md. m = Some md \<and> md \<noteq> [] \<and> md \<notin> set SUPPORTED_MODIFIERS
          \<and> msg = ''Unsupported token search modifier: '' @ md))
   \<and> set SUPPORTED_MODIFIERS = {}
   \<and> ((m = None \<or> m = Some []) \<and> dataTypes proto tm c \<noteq> None
        \<longrightarrow> (\<exists>q. tokenQuery proto tm c v u m = Inr q))"
proof (cases "unsupportedModifier m")
  case True
  then obtain md where md: "m = Some md" "md \<noteq> []" "md \<notin> set SUPPORTED_MODIFIERS"
    by (auto simp: unsupportedModifier_iff)
  have "tokenQuery proto tm c v u m
      = Inl (InvalidSearchParameterError (''Unsupported token search modifier: '' @ md))"
    using True md by (simp add: tokenQuery_def unsupportedModifierMessage_def)
  with md show ?thesis
    by (auto simp: SUPPORTED_MODIFIERS_def)
next
  case False
  then have n: "tokenQuery proto tm c v u m \<noteq> Inl (InvalidSearchParameterError msg)"
    by (simp add: tokenQuery_outcome split: option.splits)
  have "\<exists>q. tokenQuery proto tm c v u m = Inr q" if "dataTypes proto tm c \<noteq> None"
    using False that by (auto simp: tokenQuery_outcome)
  with False n show ?thesis
    by (auto simp: unsupportedModifier_iff SUPPORTED_MODIFIERS_def)
qed

text \<open>The theorem at the modifier \<open>text\<close>, which is rejected, and at no modifier.\<close>

theorem modifier_error_iff_witness:
  "tokenQuery objectPrototype Map.empty \<lparr>resourceType = ''X'', path = ''foo''\<rparr>
      \<lparr>system = None, code = Some ''bar'', explicitNoSystemProperty = None\<rparr> False (Some ''text'')
     = Inl (InvalidSearchParameterError ''Unsupported token search modifier: text'')
   \<and> dataTypes objectPrototype Map.empty \<lparr>resourceType = ''X'', path = ''foo''\<rparr> = Some []
   \<and> (\<exists>q. tokenQuery objectPrototype Map.empty \<lparr>resourceType = ''X'', path = ''foo''\<rparr>
      \<lparr>system = None, code = Some ''bar'', explicitNoSystemProperty = None\<rparr> False None = Inr q)"
proof -
  have h: "dataTypes objectPrototype Map.empty \<lparr>resourceType = ''X'', path = ''foo''\<rparr> = Some []"
    by (simp add: dataTypes_def dataTypeExists_def objectPrototype_def objectPrototypeNames_def)
  show ?thesis
    using modifier_error_iff [of objectPrototype Map.empty "\<lparr>resourceType = ''X'', path = ''foo''\<rparr>"
        "\<lparr>system = None, code = Some ''bar'', explicitNoSystemProperty = None\<rparr>" False "Some ''text''"
        "''Unsupported token search modifier: text''"]
      modifier_error_iff [of objectPrototype Map.empty "\<lparr>resourceType = ''X'', path = ''foo''\<rparr>"
        "\<lparr>system = None, code = Some ''bar'', explicitNoSystemProperty = None\<rparr>" False None] h
    by simp
qed

text \<open>
  C3 as stated fails at the empty modifier: it is set and it is not a supported modifier,
  yet the guard of line 25 tests it for truthiness and lets it pass.
\<close>

theorem empty_modifier_counterexample:
  "[] \<notin> set SUPPORTED_MODIFIERS
   \<and> tokenQuery objectPrototype Map.empty \<lparr>resourceType = ''X'', path = ''foo''\<rparr>
      \<lparr>system = None, code = Some ''bar'', explicitNoSystemProperty = None\<rparr> False (Some [])
     = Inr (MultiMatch [''foo.code'', ''foo.coding.code'', ''foo.value'', ''foo''] ''bar'' True)"
  by (simp add: eval_defs)

subsection \<open>Boolean fields under keyword sub-fields\<close>

text \<open>
  With a list that has the \<open>boolean\<close> tag, keyword sub-fields and a path other than
  \<open>id\<close>, lines 126 to 134 push the bare path and then the path with \<open>.keyword\<close>.
\<close>

lemma codeFields_boolean:
  assumes "DataType ''boolean'' \<in> set ts" and "path c \<noteq> ''id''"
  shows "path c \<in> set (codeFields True (typeFlags ts) c True)
       \<and> path c @ ''.keyword'' \<in> set (codeFields True (typeFlags ts) c True)"
proof -
  have b: "hasBooleanType (typeFlags ts)"
    using assms(1) by (auto simp: typeFlags_eq intro: bexI [of _ "DataType ''boolean''"])
  have k: "useKeywordSuffix True c" "keywordSuffix True c = ''.keyword''"
    using assms(2) by (simp_all add: useKeywordSuffix_iff keywordSuffix_eq)
  show ?thesis
    using b k by (simp add: codeFields_def Let_def)
qed

text \<open>
  C4 (as amended). When \<open>code\<close> is defined, \<open>useKeywordSubFields\<close> is true, the table has
  an entry for the resource type and path whose list contains the \<open>boolean\<close> tag, and the
  path is not \<open>id\<close>, the field list of the \<open>code\<close> clause of the result contains both the
  bare path and the path followed by \<open>.keyword\<close>.
\<close>

theorem boolean_code_fields:
  assumes "code v = Some cd" and "dataTypeExists proto tm c"
    and "dataTypes proto tm c = Some ts" and "DataType ''boolean'' \<in> set ts"
    and "path c \<noteq> ''id''"
    and "tokenQuery proto tm c v True m = Inr q"
  shows "\<exists>fs. clauses q ! (if system v = None then 0 else 1) = MultiMatch fs cd True
            \<and> path c \<in> set fs \<and> path c @ ''.keyword'' \<in> set fs"
  using code_clause_next [OF assms(6) assms(3) assms(1)] codeFields_boolean [OF assms(4,5)] assms(2)
  by simp

text \<open>The theorem at \<open>Patient\<close>, path \<open>active\<close>, of type \<open>boolean\<close>.\<close>

theorem boolean_code_fields_witness:
  "dataTypeExists objectPrototype [''Patient'' \<mapsto> [''active'' \<mapsto> [DataType ''boolean'']]] \<lparr>resourceType = ''Patient'', path = ''active''\<rparr>
   \<and> dataTypes objectPrototype [''Patient'' \<mapsto> [''active'' \<mapsto> [DataType ''boolean'']]] \<lparr>resourceType = ''Patient'', path = ''active''\<rparr>
       = Some [DataType ''boolean'']
   \<and> tokenQuery objectPrototype [''Patient'' \<mapsto> [''active'' \<mapsto> [DataType ''boolean'']]] \<lparr>resourceType = ''Patient'', path = ''active''\<rparr>
        \<lparr>system = None, code = Some ''true'', explicitNoSystemProperty = None\<rparr> True None
      = Inr (MultiMatch [''active'', ''active.keyword''] ''true'' True)
   \<and> (\<exists>fs. clauses (MultiMatch [''active'', ''active.keyword''] ''true'' True) ! 0 = MultiMatch fs ''true'' True
          \<and> ''active'' \<in> set fs \<and> ''active.keyword'' \<in> set fs)"
proof -
  have h1: "code \<lparr>system = None, code = Some ''true'', explicitNoSystemProperty = None\<rparr> = Some ''true''"
    by simp
  have h2: "dataTypeExists objectPrototype [''Patient'' \<mapsto> [''active'' \<mapsto> [DataType ''boolean'']]] \<lparr>resourceType = ''Patient'', path = ''active''\<rparr>"
    by (simp add: dataTypeExists_def)
  have h3: "dataTypes objectPrototype [''Patient'' \<mapsto> [''active'' \<mapsto> [DataType ''boolean'']]] \<lparr>resourceType = ''Patient'', path = ''active''\<rparr>
       = Some [DataType ''boolean'']"
    by (simp add: dataTypes_def dataTypeExists_def)
  have h4: "DataType ''boolean'' \<in> set [DataType ''boolean'']"
    by simp
  have h5: "path \<lparr>resourceType = ''Patient'', path = ''active''\<rparr> \<noteq> ''id''"
    by simp
  have h6: "tokenQuery objectPrototype [''Patient'' \<mapsto> [''active'' \<mapsto> [DataType ''boolean'']]] \<lparr>resourceType = ''Patient'', path = ''active''\<rparr>
        \<lparr>system = None, code = Some ''true'', explicitNoSystemProperty = None\<rparr> True None
      = Inr (MultiMatch [''active'', ''active.keyword''] ''true'' True)"
    by (simp add: eval_defs)
  show ?thesis
    using boolean_code_fields [OF h1 h2 h3 h4 h5 h6] h2 h3 h6 by simp
qed

text \<open>
  C4 as stated fails at path \<open>id\<close>: \<open>id\<close> is in \<open>FIELDS_WITHOUT_KEYWORD\<close>, so
  \<open>useKeywordSuffix\<close> is false, and the only field selected is \<open>id\<close> itself.
\<close>

theorem boolean_id_counterexample:
  "dataTypeExists objectPrototype [''Patient'' \<mapsto> [''id'' \<mapsto> [DataType ''boolean'']]] \<lparr>resourceType = ''Patient'', path = ''id''\<rparr>
   \<and> dataTypes objectPrototype [''Patient'' \<mapsto> [''id'' \<mapsto> [DataType ''boolean'']]] \<lparr>resourceType = ''Patient'', path = ''id''\<rparr>
       = Some [DataType ''boolean'']
   \<and> tokenQuery objectPrototype [''Patient'' \<mapsto> [''id'' \<mapsto> [DataType ''boolean'']]] \<lparr>resourceType = ''Patient'', path = ''id''\<rparr>
        \<lparr>system = None, code = Some ''true'', explicitNoSystemProperty = None\<rparr> True None
      = Inr (MultiMatch [''id''] ''true'' True)
   \<and> ''id.keyword'' \<notin> set [''id'']"
  by (simp add: eval_defs)

subsection \<open>The path \<open>id\<close>\<close>

text \<open>For the path \<open>id\<close> no selected field ends in \<open>.keyword\<close>.\<close>

lemma systemFields_id: "path c = ''id'' \<Longrightarrow> \<forall>f \<in> set (systemFields known fl c u). \<not> suffix ''.keyword'' f"
  by (simp add: systemFields_def keywordSuffix_eq Let_def suffix_to_prefix)

lemma codeFields_id: "path c = ''id'' \<Longrightarrow> \<forall>f \<in> set (codeFields known fl c u). \<not> suffix ''.keyword'' f"
  by (simp add: codeFields_def keywordSuffix_eq useKeywordSuffix_iff Let_def suffix_to_prefix)

text \<open>
  C5. When the compiled path is \<open>id\<close>, no field name that occurs anywhere in the
  fragment \<open>tokenQuery\<close> returns (in the field list of a \<open>multi_match\<close>, or as the field
  of the \<open>exists\<close> clause) ends in \<open>.keyword\<close>, whatever \<open>useKeywordSubFields\<close> is.
\<close>

theorem id_path_never_keyword:
  assumes "path c = ''id''" and "tokenQuery proto tm c v u m = Inr q"
  shows "\<forall>f \<in> set (fieldNames q). \<not> suffix ''.keyword'' f"
proof -
  obtain ts where
    q: "q = (if length (queries (dataTypeExists proto tm c) (typeFlags ts) c v u) = 1
             then queries (dataTypeExists proto tm c) (typeFlags ts) c v u ! 0
             else BoolMust (queries (dataTypeExists proto tm c) (typeFlags ts) c v u))"
    using assms(2) by (rule tokenQuery_Inr)
  have e: "\<not> suffix ''.keyword'' (path c @ ''.system'')"
    using assms(1) by (simp add: suffix_to_prefix)
  show ?thesis
    unfolding q
    using systemFields_id [OF assms(1), of "dataTypeExists proto tm c" "typeFlags ts" u]
      codeFields_id [OF assms(1), of "dataTypeExists proto tm c" "typeFlags ts" u] e
    by (auto simp: queries_eq split: option.splits)
qed

text \<open>The theorem at path \<open>id\<close> with all three clauses and keyword sub-fields.\<close>

theorem id_path_never_keyword_witness:
  "tokenQuery objectPrototype Map.empty \<lparr>resourceType = ''Patient'', path = ''id''\<rparr>
        \<lparr>system = Some ''s'', code = Some ''x'', explicitNoSystemProperty = Some True\<rparr> True None
      = Inr (BoolMust
          [MultiMatch [''id.system'', ''id.coding.system''] ''s'' True,
           MultiMatch [''id.code'', ''id.coding.code'', ''id.value'', ''id''] ''x'' True,
           BoolMustNotExists ''id.system''])
   \<and> \<not> suffix ''.keyword'' ''id.system'' \<and> \<not> suffix ''.keyword'' ''id.coding.system''
   \<and> \<not> suffix ''.keyword'' ''id.code'' \<and> \<not> suffix ''.keyword'' ''id.coding.code''
   \<and> \<not> suffix ''.keyword'' ''id.value'' \<and> \<not> suffix ''.keyword'' ''id''"
proof -
  have h1: "path \<lparr>resourceType = ''Patient'', path = ''id''\<rparr> = ''id''"
    by simp
  have h2: "tokenQuery objectPrototype Map.empty \<lparr>resourceType = ''Patient'', path = ''id''\<rparr>
        \<lparr>system = Some ''s'', code = Some ''x'', explicitNoSystemProperty = Some True\<rparr> True None
      = Inr (BoolMust
          [MultiMatch [''id.system'', ''id.coding.system''] ''s'' True,
           MultiMatch [''id.code'', ''id.coding.code'', ''id.value'', ''id''] ''x'' True,
           BoolMustNotExists ''id.system''])"
    by (simp add: eval_defs)
  show ?thesis
    using id_path_never_keyword [OF h1 h2] h2 by simp
qed

subsection \<open>Composition of the clauses\<close>

text \<open>
  Once the guard of line 25 has passed and the lookup of line 46 has given a list, lines
  180 to 188 do what the specification says of them: with two or more clauses the result
  is the \<open>bool.must\<close> of the clauses in the order \<open>system\<close>, \<open>code\<close>,
  \<open>must_not exists\<close>; with exactly one it is that clause; with none it is the
  \<open>bool.must\<close> of the empty list.
\<close>

lemma composite_in_order:
  assumes "(2::nat) \<le> (if system v = None then 0 else 1) + (if code v = None then 0 else 1)
              + (if explicitNoSystemProperty v = Some True then 1 else 0)"
    and "\<not> unsupportedModifier m" and "dataTypes proto tm c = Some ts"
  shows "tokenQuery proto tm c v u m =
     Inr (BoolMust
        ((case system v of None \<Rightarrow> []
          | Some s \<Rightarrow> [MultiMatch (systemFields (dataTypeExists proto tm c) (typeFlags ts) c u) s True])
         @ (case code v of None \<Rightarrow> []
            | Some cd \<Rightarrow> [MultiMatch (codeFields (dataTypeExists proto tm c) (typeFlags ts) c u) cd True])
         @ (if explicitNoSystemProperty v = Some True
            then [BoolMustNotExists (path c @ ''.system'')] else [])))"
proof -
  have "length (queries (dataTypeExists proto tm c) (typeFlags ts) c v u) \<noteq> 1"
    using assms(1) by (auto simp: queries_eq split: option.splits if_splits)
  then show ?thesis
    using assms(2,3) by (simp add: tokenQuery_outcome) (simp add: queries_eq)
qed

lemma single_clause_unwrapped:
  assumes "(if system v = None then 0 else 1) + (if code v = None then 0 else 1)
              + (if explicitNoSystemProperty v = Some True then 1 else 0) = (1::nat)"
    and "\<not> unsupportedModifier m" and "dataTypes proto tm c = Some ts"
  shows "tokenQuery proto tm c v u m =
     Inr (case system v of
            Some s \<Rightarrow> MultiMatch (systemFields (dataTypeExists proto tm c) (typeFlags ts) c u) s True
          | None \<Rightarrow> (case code v of
               Some cd \<Rightarrow> MultiMatch (codeFields (dataTypeExists proto tm c) (typeFlags ts) c u) cd True
             | None \<Rightarrow> BoolMustNotExists (path c @ ''.system'')))"
proof -
  have l: "length (queries (dataTypeExists proto tm c) (typeFlags ts) c v u) = 1"
    using assms(1) by (auto simp: queries_eq split: option.splits if_splits)
  have "queries (dataTypeExists proto tm c) (typeFlags ts) c v u ! 0 =
      (case system v of
         Some s \<Rightarrow> MultiMatch (systemFields (dataTypeExists proto tm c) (typeFlags ts) c u) s True
       | None \<Rightarrow> (case code v of
            Some cd \<Rightarrow> MultiMatch (codeFields (dataTypeExists proto tm c) (typeFlags ts) c u) cd True
          | None \<Rightarrow> BoolMustNotExists (path c @ ''.system'')))"
    using assms(1) by (auto simp: queries_eq split: option.splits if_splits)
  with l show ?thesis
    using assms(2,3) by (simp add: tokenQuery_outcome)
qed

lemma empty_composite:
  assumes "system v = None" and "code v = None" and "explicitNoSystemProperty v \<noteq> Some True"
    and "\<not> unsupportedModifier m" and "dataTypes proto tm c = Some ts"
  shows "tokenQuery proto tm c v u m = Inr (BoolMust [])"
  using assms by (simp add: tokenQuery_outcome queries_eq)

text \<open>
  C6. The claim: whenever two or more of the three clauses apply, the result is the
  \<open>bool.must\<close> of the clauses that apply, in the order \<open>system\<close>, \<open>code\<close>,
  \<open>must_not exists\<close>. The function does not keep it for a path named like a property
  of \<open>Object.prototype\<close>: at \<open>Patient\<close>, path \<open>toString\<close>, with \<open>system\<close> and
  \<open>code\<close> defined and no modifier, \<open>'toString' in tokenDataTypesMap.Patient\<close> holds,
  the value read at line 46 is a function, and line 55 throws \<open>TypeError\<close> where the
  claim has the \<open>bool.must\<close> of two \<open>multi_match\<close> clauses.
\<close>

theorem composite_TypeError_at_inherited_path:
  "tokenQuery objectPrototype [''Patient'' \<mapsto> [''identifier'' \<mapsto> [DataType ''Identifier'']]]
      \<lparr>resourceType = ''Patient'', path = ''toString''\<rparr>
      \<lparr>system = Some ''http://sys'', code = Some ''123'', explicitNoSystemProperty = None\<rparr> False None
     = Inl TypeError"
  by (simp add: eval_defs)

text \<open>
  C7. The claim: whenever exactly one of the three clauses applies, the function returns
  that clause, not wrapped in a \<open>bool.must\<close>. The function does not keep it for a
  resource type named like a property of \<open>Object.prototype\<close>: at resource type
  \<open>constructor\<close>, path \<open>name\<close>, with \<open>code\<close> alone defined and no modifier,
  \<open>tokenDataTypesMap.constructor\<close> is the function \<open>Object\<close>, \<open>'name' in Object\<close>
  holds, the value read at line 46 is a string, and line 55 throws \<open>TypeError\<close> where
  the claim has the \<open>multi_match\<close> of the \<open>code\<close> value.
\<close>

theorem single_clause_TypeError_at_inherited_name:
  "tokenQuery objectPrototype [''Patient'' \<mapsto> [''identifier'' \<mapsto> [DataType ''Identifier'']]]
      \<lparr>resourceType = ''constructor'', path = ''name''\<rparr>
      \<lparr>system = None, code = Some ''123'', explicitNoSystemProperty = None\<rparr> False None
     = Inl TypeError"
  by (simp add: eval_defs)

text \<open>
  C8. The claim: when \<open>system\<close> and \<open>code\<close> are undefined,
  \<open>explicitNoSystemProperty\<close> is falsy and the guard of line 25 does not throw, the
  function returns the \<open>bool.must\<close> of the empty list. The function does not keep it for
  a path named like a property of \<open>Object.prototype\<close>: at \<open>Patient\<close>, path
  \<open>toString\<close>, with an empty value and no modifier, line 55 throws \<open>TypeError\<close>.
\<close>

theorem empty_composite_TypeError_at_inherited_path:
  "\<not> unsupportedModifier None
   \<and> tokenQuery objectPrototype [''Patient'' \<mapsto> [''identifier'' \<mapsto> [DataType ''Identifier'']]]
      \<lparr>resourceType = ''Patient'', path = ''toString''\<rparr>
      \<lparr>system = None, code = None, explicitNoSystemProperty = None\<rparr> False None
     = Inl TypeError"
  by (simp add: eval_defs)

subsection \<open>The type list counts as a set\<close>

text \<open>
  C9. For two tables that both have an entry for the resource type and path, with lists
  that contain the same set of tag codes, \<open>tokenQuery\<close> gives the same outcome on the same
  remaining arguments: neither the order of the list nor repeated elements matter.
\<close>

theorem type_list_as_set:
  assumes "dataTypeExists proto tm1 c" and "dataTypes proto tm1 c = Some ts1"
    and "dataTypeExists proto tm2 c" and "dataTypes proto tm2 c = Some ts2"
    and "set (map dataType_code ts1) = set (map dataType_code ts2)"
  shows "tokenQuery proto tm1 c v u m = tokenQuery proto tm2 c v u m"
proof -
  have m: "(\<exists>t \<in> set ts1. dataType_code t = x) \<longleftrightarrow> (\<exists>t \<in> set ts2. dataType_code t = x)" for x
  proof -
    have "(\<exists>t \<in> set ts. dataType_code t = x) \<longleftrightarrow> x \<in> set (map dataType_code ts)" for ts
      by auto
    then show ?thesis
      using assms(5) by simp
  qed
  have f: "typeFlags ts1 = typeFlags ts2"
    unfolding typeFlags_eq by (simp add: m)
  show ?thesis
    using assms(1-4) by (simp add: tokenQuery_outcome f)
qed

text \<open>The theorem at a list with a repeated tag and the same tags in another order.\<close>

theorem type_list_as_set_witness:
  "dataTypeExists objectPrototype [''Patient'' \<mapsto> [''identifier'' \<mapsto> [DataType ''Identifier'', DataType ''CodeableConcept'', DataType ''Identifier'']]]
        \<lparr>resourceType = ''Patient'', path = ''identifier''\<rparr>
   \<and> dataTypes objectPrototype [''Patient'' \<mapsto> [''identifier'' \<mapsto> [DataType ''Identifier'', DataType ''CodeableConcept'', DataType ''Identifier'']]]
        \<lparr>resourceType = ''Patient'', path = ''identifier''\<rparr>
       = Some [DataType ''Identifier'', DataType ''CodeableConcept'', DataType ''Identifier'']
   \<and> dataTypeExists objectPrototype [''Patient'' \<mapsto> [''identifier'' \<mapsto> [DataType ''CodeableConcept'', DataType ''Identifier'']]]
        \<lparr>resourceType = ''Patient'', path = ''identifier''\<rparr>
   \<and> dataTypes objectPrototype [''Patient'' \<mapsto> [''identifier'' \<mapsto> [DataType ''CodeableConcept'', DataType ''Identifier'']]]
        \<lparr>resourceType = ''Patient'', path = ''identifier''\<rparr>
       = Some [DataType ''CodeableConcept'', DataType ''Identifier'']
   \<and> set (map dataType_code [DataType ''Identifier'', DataType ''CodeableConcept'', DataType ''Identifier''])
     = set (map dataType_code [DataType ''CodeableConcept'', DataType ''Identifier''])
   \<and> tokenQuery objectPrototype [''Patient'' \<mapsto> [''identifier'' \<mapsto> [DataType ''Identifier'', DataType ''CodeableConcept'', DataType ''Identifier'']]]
        \<lparr>resourceType = ''Patient'', path = ''identifier''\<rparr>
        \<lparr>system = Some ''http://sys'', code = Some ''123'', explicitNoSystemProperty = None\<rparr> True None
     = tokenQuery objectPrototype [''Patient'' \<mapsto> [''identifier'' \<mapsto> [DataType ''CodeableConcept'', DataType ''Identifier'']]]
        \<lparr>resourceType = ''Patient'', path = ''identifier''\<rparr>
        \<lparr>system = Some ''http://sys'', code = Some ''123'', explicitNoSystemProperty = None\<rparr> True None
   \<and> tokenQuery objectPrototype [''Patient'' \<mapsto> [''identifier'' \<mapsto> [DataType ''CodeableConcept'', DataType ''Identifier'']]]
        \<lparr>resourceType = ''Patient'', path = ''identifier''\<rparr>
        \<lparr>system = Some ''http://sys'', code = Some ''123'', explicitNoSystemProperty = None\<rparr> True None
     = Inr (BoolMust
         [MultiMatch [''identifier.system.keyword'', ''identifier.coding.system.keyword''] ''http://sys'' True,
          MultiMatch [''identifier.coding.code.keyword'', ''identifier.value.keyword''] ''123'' True])"
proof -
  have h1: "dataTypeExists objectPrototype [''Patient'' \<mapsto> [''identifier'' \<mapsto> [DataType ''Identifier'', DataType ''CodeableConcept'', DataType ''Identifier'']]]
        \<lparr>resourceType = ''Patient'', path = ''identifier''\<rparr>"
    by (simp add: dataTypeExists_def)
  have h2: "dataTypes objectPrototype [''Patient'' \<mapsto> [''identifier'' \<mapsto> [DataType ''Identifier'', DataType ''CodeableConcept'', DataType ''Identifier'']]]
        \<lparr>resourceType = ''Patient'', path = ''identifier''\<rparr>
       = Some [DataType ''Identifier'', DataType ''CodeableConcept'', DataType ''Identifier'']"
    by (simp add: dataTypes_def dataTypeExists_def)
  have h3: "dataTypeExists objectPrototype [''Patient'' \<mapsto> [''identifier'' \<mapsto> [DataType ''CodeableConcept'', DataType ''Identifier'']]]
        \<lparr>resourceType = ''Patient'', path = ''identifier''\<rparr>"
    by (simp add: dataTypeExists_def)
  have h4: "dataTypes objectPrototype [''Patient'' \<mapsto> [''identifier'' \<mapsto> [DataType ''CodeableConcept'', DataType ''Identifier'']]]
        \<lparr>resourceType = ''Patient'', path = ''identifier''\<rparr>
       = Some [DataType ''CodeableConcept'', DataType ''Identifier'']"
    by (simp add: dataTypes_def dataTypeExists_def)
  have h5: "set (map dataType_code [DataType ''Identifier'', DataType ''CodeableConcept'', DataType ''Identifier''])
     = set (map dataType_code [DataType ''CodeableConcept'', DataType ''Identifier''])"
    by auto
  have h6: "tokenQuery objectPrototype [''Patient'' \<mapsto> [''identifier'' \<mapsto> [DataType ''CodeableConcept'', DataType ''Identifier'']]]
        \<lparr>resourceType = ''Patient'', path = ''identifier''\<rparr>
        \<lparr>system = Some ''http://sys'', code = Some ''123'', explicitNoSystemProperty = None\<rparr> True None
     = Inr (BoolMust
         [MultiMatch [''identifier.system.keyword'', ''identifier.coding.system.keyword''] ''http://sys'' True,
          MultiMatch [''identifier.coding.code.keyword'', ''identifier.value.keyword''] ''123'' True])"
    by (simp add: eval_defs)
  show ?thesis
    using type_list_as_set [OF h1 h2 h3 h4 h5] h1 h2 h3 h4 h5 h6 by blast
qed

subsection \<open>No \<open>multi_match\<close> without fields\<close>

text \<open>
  C10. In every fragment \<open>tokenQuery\<close> returns, for any path, table and
  \<open>useKeywordSubFields\<close>, every \<open>multi_match\<close> that occurs has a non-empty field list.
\<close>

theorem multi_match_fields_nonempty:
  assumes "tokenQuery proto tm c v u m = Inr q"
  shows "\<forall>q' \<in> set (subQueries q). \<forall>fs s l. q' = MultiMatch fs s l \<longrightarrow> fs \<noteq> []"
proof -
  obtain ts where
    q: "q = (if length (queries (dataTypeExists proto tm c) (typeFlags ts) c v u) = 1
             then queries (dataTypeExists proto tm c) (typeFlags ts) c v u ! 0
             else BoolMust (queries (dataTypeExists proto tm c) (typeFlags ts) c v u))"
    using assms by (rule tokenQuery_Inr)
  show ?thesis
    unfolding q
    using systemFields_nonempty [of "dataTypeExists proto tm c" "typeFlags ts" c u]
      codeFields_nonempty [of "dataTypeExists proto tm c" "typeFlags ts" c u]
    by (auto simp: queries_eq split: option.splits)
qed

text \<open>The specification's example: \<open>Patient.identifier\<close> of type \<open>Identifier\<close>.\<close>

theorem multi_match_fields_nonempty_witness:
  "tokenQuery objectPrototype [''Patient'' \<mapsto> [''identifier'' \<mapsto> [DataType ''Identifier'']]]
        \<lparr>resourceType = ''Patient'', path = ''identifier''\<rparr>
        \<lparr>system = Some ''http://sys'', code = Some ''123'', explicitNoSystemProperty = None\<rparr> True None
     = Inr (BoolMust [MultiMatch [''identifier.system.keyword''] ''http://sys'' True,
                      MultiMatch [''identifier.value.keyword''] ''123'' True])
   \<and> subQueries (BoolMust [MultiMatch [''identifier.system.keyword''] ''http://sys'' True,
                            MultiMatch [''identifier.value.keyword''] ''123'' True])
     = [BoolMust [MultiMatch [''identifier.system.keyword''] ''http://sys'' True,
                  MultiMatch [''identifier.value.keyword''] ''123'' True],
        MultiMatch [''identifier.system.keyword''] ''http://sys'' True,
        MultiMatch [''identifier.value.keyword''] ''123'' True]
   \<and> [''identifier.system.keyword''] \<noteq> [] \<and> [''identifier.value.keyword''] \<noteq> []"
proof -
  have h: "tokenQuery objectPrototype [''Patient'' \<mapsto> [''identifier'' \<mapsto> [DataType ''Identifier'']]]
        \<lparr>resourceType = ''Patient'', path = ''identifier''\<rparr>
        \<lparr>system = Some ''http://sys'', code = Some ''123'', explicitNoSystemProperty = None\<rparr> True None
     = Inr (BoolMust [MultiMatch [''identifier.system.keyword''] ''http://sys'' True,
                      MultiMatch [''identifier.value.keyword''] ''123'' True])"
    by (simp add: eval_defs)
  show ?thesis
    using multi_match_fields_nonempty [OF h] h by simp
qed

end
